theory Spec2Isabelle
  imports Main "HOL-Library.Sublist"
begin

section \<open>Package lookergo: the model-set resource (pkg/lookergo/modelSets.go)\<close>

text \<open>
  A Go call either returns its results or panics with a value. The four unwired
  operations of the model-set resource end in \<^verbatim>\<open>panic("implement me")\<close>, so the result
  type of every operation keeps the panic as a value of its own.
\<close>

datatype 'a go_result = Return 'a | Panic string

fun returned :: "'a go_result \<Rightarrow> bool" where
  "returned (Return _) = True"
| "returned (Panic _) = False"

fun panicked :: "'a go_result \<Rightarrow> bool" where
  "panicked (Return _) = False"
| "panicked (Panic _) = True"

text \<open>\<^verbatim>\<open>const modelSetsBasePath = "4.0/model_sets"\<close>\<close>

definition modelSetsBasePath :: string where
  "modelSetsBasePath = ''4.0/model_sets''"

text \<open>
  \<^verbatim>\<open>type ModelSetsResourceOp struct { client *Client }\<close>: the client pointer is kept
  abstract (\<open>'p\<close>), package lookergo's \<^verbatim>\<open>Client\<close> being declared elsewhere.
\<close>

record 'p ModelSetsResourceOp =
  client :: 'p

text \<open>
  \<^verbatim>\<open>type ModelSet struct\<close>, the fields in the order of the declaration. A Go slice is
  either \<^verbatim>\<open>nil\<close> (\<open>None\<close>) or a sequence of elements, possibly empty (\<open>Some xs\<close>).
\<close>

record ModelSet =
  BuiltIn :: bool
  Id :: string
  AllAccess :: bool
  Models :: "string list option"
  Name :: string

text \<open>
  The struct tags of \<^verbatim>\<open>ModelSet\<close>, one entry per field in the order of the declaration:
  the Go field name, the JSON key, and whether the tag carries \<^verbatim>\<open>omitempty\<close>.
\<close>

definition ModelSet_tags :: "(string \<times> string \<times> bool) list" where
  "ModelSet_tags =
     [(''BuiltIn'', ''built_in'', True),
      (''Id'', ''id'', True),
      (''AllAccess'', ''all_access'', True),
      (''Models'', ''models'', True),
      (''Name'', ''name'', True)]"

text \<open>What \<^verbatim>\<open>encoding/json\<close> reads off the tags: the key of a field (the field's own name
  when it has no tag) and whether it is tagged \<^verbatim>\<open>omitempty\<close>.\<close>

definition json_key :: "string \<Rightarrow> string" where
  "json_key field = (case map_of ModelSet_tags field of Some (k, _) \<Rightarrow> k | None \<Rightarrow> field)"

definition omitempty :: "string \<Rightarrow> bool" where
  "omitempty field = (case map_of ModelSet_tags field of Some (_, b) \<Rightarrow> b | None \<Rightarrow> False)"

text \<open>The JSON values a \<^verbatim>\<open>ModelSet\<close> is encoded into.\<close>

datatype json =
    JBool bool
  | JString string
  | JArray "json list"
  | JObject "(string \<times> json) list"

text \<open>
  A Go string is a sequence of bytes. \<^verbatim>\<open>encoding/json\<close> writes it as a JSON string
  rune by rune: \<^verbatim>\<open>utf8.DecodeRuneInString\<close> reads the rune at the head, of one to four
  bytes, and reports an error of size one for a byte that starts no well-formed
  sequence (a stray continuation byte, an overlong or truncated sequence, a surrogate,
  a value above U+10FFFF). \<open>rune_len\<close> is the size of the rune at the head, and 0 for
  that error. The second byte of a sequence must lie in the range that the first byte
  admits; every later byte is a continuation byte.
\<close>

definition byte :: "char \<Rightarrow> nat" where
  "byte c = of_char c"

definition between :: "nat \<Rightarrow> nat \<Rightarrow> char \<Rightarrow> bool" where
  "between lo hi c \<longleftrightarrow> lo \<le> byte c \<and> byte c \<le> hi"

definition continuation :: "char \<Rightarrow> bool" where
  "continuation c = between 0x80 0xBF c"

fun rune_len :: "string \<Rightarrow> nat" where
  "rune_len [] = 0"
| "rune_len (b # rest) =
     (let x = byte b in
      if x < 0x80 then 1
      else if 0xC2 \<le> x \<and> x \<le> 0xDF then
        (case rest of
           c1 # _ \<Rightarrow> if continuation c1 then 2 else 0
         | _ \<Rightarrow> 0)
      else if 0xE0 \<le> x \<and> x \<le> 0xEF then
        (case rest of
           c1 # c2 # _ \<Rightarrow>
             if between (if x = 0xE0 then 0xA0 else 0x80) (if x = 0xED then 0x9F else 0xBF) c1 \<and>
                continuation c2
             then 3 else 0
         | _ \<Rightarrow> 0)
      else if 0xF0 \<le> x \<and> x \<le> 0xF4 then
        (case rest of
           c1 # c2 # c3 # _ \<Rightarrow>
             if between (if x = 0xF0 then 0x90 else 0x80) (if x = 0xF4 then 0x8F else 0xBF) c1 \<and>
                continuation c2 \<and> continuation c3
             then 4 else 0
         | _ \<Rightarrow> 0)
      else 0)"

text \<open>
  The string that the encoder writes: a well-formed rune is kept, and every byte that
  is reported as an error is replaced by U+FFFD (the bytes EF BF BD). The first argument
  counts the bytes of the current rune still to be copied. The escapes of the encoder
  (of the quote, the backslash, control characters, \<^verbatim>\<open><\<close>, \<^verbatim>\<open>>\<close>, \<^verbatim>\<open>&\<close>, U+2028 and
  U+2029) change the text written, not the string it denotes.
\<close>

definition replacement_char :: string where
  "replacement_char = [CHR 0xEF, CHR 0xBF, CHR 0xBD]"

fun coerce_utf8 :: "nat \<Rightarrow> string \<Rightarrow> string" where
  "coerce_utf8 k [] = []"
| "coerce_utf8 (Suc k) (b # rest) = b # coerce_utf8 k rest"
| "coerce_utf8 0 (b # rest) =
     (case rune_len (b # rest) of
        0 \<Rightarrow> replacement_char @ coerce_utf8 0 rest
      | Suc n \<Rightarrow> b # coerce_utf8 n rest)"

definition json_string :: "string \<Rightarrow> json" where
  "json_string s = JString (coerce_utf8 0 s)"

text \<open>
  Go's \<^verbatim>\<open>encoding/json\<close> on a struct: the fields are written in the order of the
  declaration under their key; a field tagged \<^verbatim>\<open>omitempty\<close> is left out when it is
  empty, that is \<^verbatim>\<open>false\<close>, a string of length zero, or a slice of length zero (nil
  or not). Without \<^verbatim>\<open>omitempty\<close> a nil slice is written as \<^verbatim>\<open>null\<close>, which no field of
  \<^verbatim>\<open>ModelSet\<close> can reach: that branch yields an empty array here.
\<close>

definition emit_bool :: "string \<Rightarrow> bool \<Rightarrow> (string \<times> json) list" where
  "emit_bool field b =
     (if omitempty field \<and> \<not> b then [] else [(json_key field, JBool b)])"

definition emit_string :: "string \<Rightarrow> string \<Rightarrow> (string \<times> json) list" where
  "emit_string field s =
     (if omitempty field \<and> s = [] then [] else [(json_key field, json_string s)])"

definition emit_strings :: "string \<Rightarrow> string list option \<Rightarrow> (string \<times> json) list" where
  "emit_strings field xs =
     (case xs of
        None \<Rightarrow> (if omitempty field then [] else [(json_key field, JArray [])])
      | Some ys \<Rightarrow>
          (if omitempty field \<and> ys = [] then []
           else [(json_key field, JArray (map json_string ys))]))"

definition marshal_fields :: "ModelSet \<Rightarrow> (string \<times> json) list" where
  "marshal_fields m =
     emit_bool ''BuiltIn'' (BuiltIn m) @
     emit_string ''Id'' (Id m) @
     emit_bool ''AllAccess'' (AllAccess m) @
     emit_strings ''Models'' (Models m) @
     emit_string ''Name'' (Name m)"

definition marshal :: "ModelSet \<Rightarrow> json" where
  "marshal m = JObject (marshal_fields m)"

text \<open>The zero value of the struct, and the test "every field is empty" of \<^verbatim>\<open>omitempty\<close>.\<close>

definition ModelSet_zero :: ModelSet where
  "ModelSet_zero = \<lparr>BuiltIn = False, Id = [], AllAccess = False, Models = None, Name = []\<rparr>"

definition all_empty :: "ModelSet \<Rightarrow> bool" where
  "all_empty m \<longleftrightarrow>
     \<not> BuiltIn m \<and> Id m = [] \<and> \<not> AllAccess m \<and>
     (Models m = None \<or> Models m = Some []) \<and> Name m = []"

text \<open>
  \<^verbatim>\<open>List\<close> hands the request to the generic list engine \<^verbatim>\<open>doList\<close>, which lives in
  another file of the package and is a parameter here: it receives the context, the
  client, the path, the (nil) options and the destination \<^verbatim>\<open>new([]ModelSet)\<close>, a
  pointer to a nil slice.
\<close>

definition List_op ::
  "('x \<Rightarrow> 'p \<Rightarrow> string \<Rightarrow> 'o option \<Rightarrow> ModelSet list option \<Rightarrow> 'r) \<Rightarrow>
   'p ModelSetsResourceOp \<Rightarrow> 'x \<Rightarrow> 'r" where
  "List_op doList s ctx = doList ctx (client s) modelSetsBasePath None None"

text \<open>
  \<^verbatim>\<open>Get\<close>, \<^verbatim>\<open>Create\<close>, \<^verbatim>\<open>Update\<close> and \<^verbatim>\<open>Delete\<close>: the body of each is the comment
  \<^verbatim>\<open>// TODO implement me\<close> and \<^verbatim>\<open>panic("implement me")\<close>. The result types are
  \<^verbatim>\<open>(*ModelSet, *Response, error)\<close>, and \<^verbatim>\<open>(*Response, error)\<close> for \<^verbatim>\<open>Delete\<close>;
  \<^verbatim>\<open>Response\<close> (\<open>'r\<close>) and the error values (\<open>'e\<close>) are declared elsewhere.
\<close>

definition Get_op ::
  "'p ModelSetsResourceOp \<Rightarrow> 'x \<Rightarrow> string \<Rightarrow>
   (ModelSet option \<times> 'r option \<times> 'e option) go_result" where
  "Get_op s ctx modelSetId = Panic ''implement me''"

definition Create_op ::
  "'p ModelSetsResourceOp \<Rightarrow> 'x \<Rightarrow> ModelSet option \<Rightarrow>
   (ModelSet option \<times> 'r option \<times> 'e option) go_result" where
  "Create_op s ctx modelSet = Panic ''implement me''"

definition Update_op ::
  "'p ModelSetsResourceOp \<Rightarrow> 'x \<Rightarrow> string \<Rightarrow> ModelSet option \<Rightarrow>
   (ModelSet option \<times> 'r option \<times> 'e option) go_result" where
  "Update_op s ctx modelSetId modelSet = Panic ''implement me''"

definition Delete_op ::
  "'p ModelSetsResourceOp \<Rightarrow> 'x \<Rightarrow> string \<Rightarrow> ('r option \<times> 'e option) go_result" where
  "Delete_op s ctx modelSetId = Panic ''implement me''"

text \<open>
  The methods that \<^verbatim>\<open>modelSets.go\<close> declares, each with the type of its receiver, in
  the order of the file: all five are methods of \<^verbatim>\<open>ModelSetsResourceOp\<close>.
\<close>

definition declared_methods :: "(string \<times> string) list" where
  "declared_methods =
     [(''ModelSetsResourceOp'', ''List''),
      (''ModelSetsResourceOp'', ''Get''),
      (''ModelSetsResourceOp'', ''Create''),
      (''ModelSetsResourceOp'', ''Update''),
      (''ModelSetsResourceOp'', ''Delete'')]"

definition methods_of :: "string \<Rightarrow> string list" where
  "methods_of receiver = map snd (filter (\<lambda>m. fst m = receiver) declared_methods)"

section \<open>Package provider: the provider and its configuration\<close>

subsection \<open>The plugin SDK's data, as far as the provider uses it\<close>

text \<open>\<^verbatim>\<open>diag.Severity\<close> (\<^verbatim>\<open>diag.Error\<close>, \<^verbatim>\<open>diag.Warning\<close>) and \<^verbatim>\<open>diag.Diagnostic\<close>.\<close>

datatype Severity = Error | Warning

record Diagnostic =
  Severity :: Severity
  Summary :: string
  Detail :: string

text \<open>\<^verbatim>\<open>schema.ValueType\<close> and the fields of \<^verbatim>\<open>schema.Schema\<close> that \<^verbatim>\<open>New\<close> sets. A
  field the literal leaves out has Go's zero value. \<^verbatim>\<open>DefaultFunc\<close> reads the process
  environment, given as the function \<^verbatim>\<open>os.Getenv\<close> (the empty string for a variable that
  is not set), and yields a value or \<^verbatim>\<open>nil\<close> (\<open>None\<close>).\<close>

datatype ValueType =
  TypeInvalid | TypeBool | TypeInt | TypeFloat | TypeString | TypeList | TypeMap | TypeSet

record Schema =
  Description :: string
  Type :: ValueType
  Optional :: bool
  Sensitive :: bool
  DefaultFunc :: "(string \<Rightarrow> string) \<Rightarrow> string option"

text \<open>
  Modelled from the spec: \<^verbatim>\<open>schema.EnvDefaultFunc(k, dv)\<close> is a helper of the plugin SDK
  and not a function of this repository. It is the fallback the spec describes for a
  field that is unset: the value of the environment variable \<open>k\<close> when that is not
  empty, and the default \<open>dv\<close> otherwise.
\<close>

definition EnvDefaultFunc :: "string \<Rightarrow> string option \<Rightarrow> (string \<Rightarrow> string) \<Rightarrow> string option" where
  "EnvDefaultFunc k dv getenv = (let v = getenv k in if v \<noteq> [] then Some v else dv)"

text \<open>
  Modelled from the spec: how the SDK resolves an optional field is not code of this
  repository either. A field of the schema that the configuration sets has the
  configured value; one it leaves unset has what its \<^verbatim>\<open>DefaultFunc\<close> returns; a key
  that is not in the schema has no value.
\<close>

definition resolve ::
  "(string \<rightharpoonup> Schema) \<Rightarrow> (string \<rightharpoonup> string) \<Rightarrow> (string \<Rightarrow> string) \<Rightarrow> string \<Rightarrow> string option" where
  "resolve sch cfg getenv key =
     (case sch key of
        None \<Rightarrow> None
      | Some s \<Rightarrow> (case cfg key of Some v \<Rightarrow> Some v | None \<Rightarrow> DefaultFunc s getenv))"

text \<open>
  \<^verbatim>\<open>schema.Provider\<close>: the schema map, and the SDK's method \<^verbatim>\<open>UserAgent(name, version)\<close>,
  a parameter here. \<^verbatim>\<open>schema.ResourceData\<close>: \<^verbatim>\<open>d.Get(key)\<close> and \<^verbatim>\<open>d.ConnInfo()\<close>. The
  three keys the provider reads are of \<^verbatim>\<open>TypeString\<close>, for which \<^verbatim>\<open>Get\<close> returns a string
  (the empty one when there is no value), so the assertion \<^verbatim>\<open>.(string)\<close> holds and
  \<open>Get\<close> is string-valued.
\<close>

record Provider =
  Schema :: "string \<rightharpoonup> Schema"
  UserAgent :: "string \<Rightarrow> string \<Rightarrow> string"

record ResourceData =
  Get :: "string \<Rightarrow> string"
  ConnInfo :: "(string \<times> string) list"

subsection \<open>\<^verbatim>\<open>New\<close>\<close>

text \<open>
  The provider that \<^verbatim>\<open>New(version)()\<close> builds. \<^verbatim>\<open>DataSourcesMap\<close> and \<^verbatim>\<open>ResourcesMap\<close> are
  built by constructors of other files and are not part of this development.
\<close>

definition New_Schema :: "(string \<times> Schema) list" where
  "New_Schema =
     [(''base_url'',
         \<lparr>Description =
            ''For base_url, provide the URL including /api/ ! '' @
            ''Normally, a REST API should not have api in it'' @ [CHR 0x27] @ ''s path, '' @
            ''therefore we don'' @ [CHR 0x27] @ ''t add the /api/ inside the provider. '',
          Type = TypeString,
          Optional = True,
          Sensitive = False,
          DefaultFunc = EnvDefaultFunc ''LOOKER_BASE_URL'' None\<rparr>),
      (''client_id'',
         \<lparr>Description = [],
          Type = TypeString,
          Optional = True,
          Sensitive = False,
          DefaultFunc = EnvDefaultFunc ''LOOKER_API_CLIENT_ID'' None\<rparr>),
      (''client_secret'',
         \<lparr>Description = [],
          Type = TypeString,
          Optional = True,
          Sensitive = True,
          DefaultFunc = EnvDefaultFunc ''LOOKER_API_CLIENT_SECRET'' None\<rparr>)]"

definition New :: "(string \<Rightarrow> string \<Rightarrow> string) \<Rightarrow> string \<Rightarrow> Provider" where
  "New userAgentOf version = \<lparr>Schema = map_of New_Schema, UserAgent = userAgentOf\<rparr>"

subsection \<open>\<^verbatim>\<open>Workspace\<close> and \<^verbatim>\<open>Config\<close>\<close>

datatype Workspace = WorkspaceProduction | WorkspaceDev

text \<open>\<^verbatim>\<open>Api\<close> is a pointer \<^verbatim>\<open>*lookergo.Client\<close>: \<open>None\<close> is \<^verbatim>\<open>nil\<close>.\<close>

record 'p Config =
  Api :: "'p option"
  Workspace :: Workspace

subsection \<open>The client library, as \<^verbatim>\<open>providerConfigure\<close> calls it\<close>

text \<open>
  The session that \<^verbatim>\<open>client.Sessions.Get\<close> returns; the provider reads its
  \<^verbatim>\<open>WorkspaceId\<close> only.
\<close>

record Session =
  WorkspaceId :: string

text \<open>
  \<^verbatim>\<open>lookergo.Client\<close> and its methods are declared in other files, so they are
  parameters: each call reads and changes the world \<open>'w\<close> (the client's own state, the
  remote server, the context \<^verbatim>\<open>ctx\<close>), and reports an error as its message
  (\<^verbatim>\<open>err.Error()\<close>), \<open>None\<close> being \<^verbatim>\<open>nil\<close>. \<^verbatim>\<open>NewClient\<close> allocates the client and
  returns a reference \<open>'p\<close> to it. \<^verbatim>\<open>Sessions.Get\<close> returns a pointer to a session and
  an error. \<^verbatim>\<open>CreateDevConnection\<close> returns the dev client and the dev session, or an
  error. The last two fields are \<^verbatim>\<open>fmt\<close>'s rendering \<^verbatim>\<open>%#v\<close> of these two values.
\<close>

record ('w, 'p, 'dc, 'ds) LookerEnv =
  NewClient :: "'w \<Rightarrow> 'p \<times> 'w"
  SetBaseURL :: "'p \<Rightarrow> string \<Rightarrow> 'w \<Rightarrow> string option \<times> 'w"
  SetOauthCredentials :: "'p \<Rightarrow> string \<Rightarrow> string \<Rightarrow> 'w \<Rightarrow> string option \<times> 'w"
  SetUserAgent :: "'p \<Rightarrow> string \<Rightarrow> 'w \<Rightarrow> string option \<times> 'w"
  SessionsGet :: "'p \<Rightarrow> 'w \<Rightarrow> (Session option \<times> string option) \<times> 'w"
  CreateDevConnection :: "'p \<Rightarrow> 'w \<Rightarrow> (string + 'dc \<times> 'ds) \<times> 'w"
  GoSyntax_dc :: "'dc \<Rightarrow> 'w \<Rightarrow> string"
  GoSyntax_ds :: "'ds \<Rightarrow> 'w \<Rightarrow> string"

text \<open>What a run does besides returning: the calls on the client library in order, each
  with what it returned; the entries handed to \<^verbatim>\<open>tflog.Debug\<close>; the text printed by
  \<^verbatim>\<open>fmt.Printf\<close>.\<close>

datatype 'p call =
    NewClient_call 'p
  | SetBaseURL_call string "string option"
  | SetOauthCredentials_call string string "string option"
  | SetUserAgent_call string "string option"
  | SessionsGet_call "Session option" "string option"
  | CreateDevConnection_call "string option"

datatype logval =
    LString string
  | LConnInfo "(string \<times> string) list"
  | LSchema "string \<rightharpoonup> Schema"

datatype log_entry = Debug string "(string \<times> logval) list"

record ('w, 'p) outcome =
  ret :: "('p Config option \<times> Diagnostic list) go_result"
  calls :: "'p call list"
  logs :: "log_entry list"
  stdout :: string
  world :: 'w

subsection \<open>\<^verbatim>\<open>providerConfigure\<close>\<close>

text \<open>
  The body of \<^verbatim>\<open>providerConfigure\<close>, statement by statement. The diagnostics start as the
  nil slice, every failing step appends its diagnostic and returns \<^verbatim>\<open>nil\<close> with them. A
  session pointer that is \<^verbatim>\<open>nil\<close> although the error is \<^verbatim>\<open>nil\<close> makes the read of
  \<^verbatim>\<open>session.WorkspaceId\<close> panic. The last statement returns \<^verbatim>\<open>&config\<close> and the nil
  diagnostics.
\<close>

definition nil_deref :: string where
  "nil_deref = ''runtime error: invalid memory address or nil pointer dereference''"

definition providerConfigure ::
  "('w, 'p, 'dc, 'ds) LookerEnv \<Rightarrow> ResourceData \<Rightarrow> Provider \<Rightarrow> string \<Rightarrow> 'w \<Rightarrow> ('w, 'p) outcome" where
  "providerConfigure env d p version w0 =
    (let lg = [Debug ''Configure provider''
                 [(''conninfo'', LConnInfo (ConnInfo d)), (''schema'', LSchema (Schema p))],
               Debug ''Provider config'' [(''client_id'', LString (Get d ''client_id''))]];
         userAgent = UserAgent p ''terraform-provider-looker'' version;
         diags = [];
         (client, w1) = NewClient env w0;
         t1 = [NewClient_call client];
         (err1, w2) = SetBaseURL env client (Get d ''base_url'') w1;
         t2 = t1 @ [SetBaseURL_call (Get d ''base_url'') err1]
     in case err1 of
       Some e \<Rightarrow>
         \<lparr>ret = Return (None, diags @
             [\<lparr>Severity = Error,
               Summary = ''Unable to set looker API endpoint'',
               Detail = ''Err: '' @ e\<rparr>]),
          calls = t2, logs = lg, stdout = [], world = w2\<rparr>
     | None \<Rightarrow>
    (let clientId = Get d ''client_id'';
         clientSecret = Get d ''client_secret'';
         (err2, w3) = SetOauthCredentials env client clientId clientSecret w2;
         t3 = t2 @ [SetOauthCredentials_call clientId clientSecret err2]
     in case err2 of
       Some e \<Rightarrow>
         \<lparr>ret = Return (None, diags @
             [\<lparr>Severity = Error,
               Summary = ''Unable to set looker API client_id/client_secret'',
               Detail = ''Err: '' @ e\<rparr>]),
          calls = t3, logs = lg, stdout = [], world = w3\<rparr>
     | None \<Rightarrow>
    (let (err3, w4) = SetUserAgent env client userAgent w3;
         t4 = t3 @ [SetUserAgent_call userAgent err3]
     in case err3 of
       Some e \<Rightarrow>
         \<lparr>ret = Return (None, diags @
             [\<lparr>Severity = Error,
               Summary = ''Unable to set looker API user-agent'',
               Detail = ''Err: '' @ e\<rparr>]),
          calls = t4, logs = lg, stdout = [], world = w4\<rparr>
     | None \<Rightarrow>
    (let ((session, err4), w5) = SessionsGet env client w4;
         t5 = t4 @ [SessionsGet_call session err4]
     in case err4 of
       Some e \<Rightarrow>
         \<lparr>ret = Return (None, diags @
             [\<lparr>Severity = Error,
               Summary = ''Unable to create Looker client'',
               Detail = ''Unable to authenticate user for authenticated Looker client: '' @ e\<rparr>]),
          calls = t5, logs = lg, stdout = [], world = w5\<rparr>
     | None \<Rightarrow>
    (case session of
       None \<Rightarrow> \<lparr>ret = Panic nil_deref, calls = t5, logs = lg, stdout = [], world = w5\<rparr>
     | Some sess \<Rightarrow>
    (case (if WorkspaceId sess = ''production''
             then Some \<lparr>Api = Some client, Workspace = WorkspaceProduction\<rparr>
           else if WorkspaceId sess = ''dev''
             then Some \<lparr>Api = Some client, Workspace = WorkspaceDev\<rparr>
           else None) of
       None \<Rightarrow>
         \<lparr>ret = Return (None, diags @
             [\<lparr>Severity = Error,
               Summary = ''Session Workspace ID is nome of production/dev'',
               Detail = ''Unable to find workspace ID in /session call''\<rparr>]),
          calls = t5, logs = lg, stdout = [], world = w5\<rparr>
     | Some config \<Rightarrow>
    (let (dev, w6) = CreateDevConnection env client w5
     in case dev of
       Inl e \<Rightarrow>
         \<lparr>ret = Return (None, diags @
             [\<lparr>Severity = Error,
               Summary = ''Unable to create Looker client'',
               Detail = ''Unable to authenticate user for authenticated Looker client: '' @ e\<rparr>]),
          calls = t5 @ [CreateDevConnection_call (Some e)],
          logs = lg, stdout = [], world = w6\<rparr>
     | Inr (devClient, devSession) \<Rightarrow>
         \<lparr>ret = Return (Some config, []),
          calls = t5 @ [CreateDevConnection_call None],
          logs = lg,
          stdout = ''dc: '' @ GoSyntax_dc env devClient w6 @ [CHR 0x0A] @
                   ''ds: '' @ GoSyntax_ds env devSession w6 @ [CHR 0x0A],
          world = w6\<rparr>)))))))"

text \<open>\<^verbatim>\<open>p.ConfigureContextFunc\<close>, the closure that \<^verbatim>\<open>New\<close> installs: it calls
  \<^verbatim>\<open>providerConfigure\<close> with the provider itself and the version.\<close>

definition ConfigureContextFunc ::
  "('w, 'p, 'dc, 'ds) LookerEnv \<Rightarrow> (string \<Rightarrow> string \<Rightarrow> string) \<Rightarrow> string \<Rightarrow>
   ResourceData \<Rightarrow> 'w \<Rightarrow> ('w, 'p) outcome" where
  "ConfigureContextFunc env userAgentOf version d w =
     providerConfigure env d (New userAgentOf version) version w"

subsection \<open>Reading a run\<close>

text \<open>
  A call of the trace is a failed setup step when it returned an error, or, for
  \<^verbatim>\<open>Sessions.Get\<close>, when the session it returned has a workspace that the \<^verbatim>\<open>switch\<close>
  sends to its \<^verbatim>\<open>default\<close> branch.
\<close>

fun step_failed :: "'p call \<Rightarrow> bool" where
  "step_failed (NewClient_call _) = False"
| "step_failed (SetBaseURL_call _ err) = (err \<noteq> None)"
| "step_failed (SetOauthCredentials_call _ _ err) = (err \<noteq> None)"
| "step_failed (SetUserAgent_call _ err) = (err \<noteq> None)"
| "step_failed (SessionsGet_call session err) =
     (err \<noteq> None \<or>
      (case session of
         None \<Rightarrow> False
       | Some s \<Rightarrow> WorkspaceId s \<noteq> ''production'' \<and> WorkspaceId s \<noteq> ''dev''))"
| "step_failed (CreateDevConnection_call _) = False"

text \<open>
  A client library that answers from a script, for running the configuration on
  concrete inputs: the world counts the calls made so far, the client reference is the
  count at its allocation, and the dev client and dev session are strings that print as
  themselves.
\<close>

definition scripted ::
  "string option \<Rightarrow> string option \<Rightarrow> string option \<Rightarrow> Session option \<times> string option \<Rightarrow>
   string + string \<times> string \<Rightarrow> (nat, nat, string, string) LookerEnv" where
  "scripted e1 e2 e3 sess dev =
     \<lparr>NewClient = (\<lambda>w. (w, Suc w)),
      SetBaseURL = (\<lambda>c url w. (e1, Suc w)),
      SetOauthCredentials = (\<lambda>c clientId clientSecret w. (e2, Suc w)),
      SetUserAgent = (\<lambda>c ua w. (e3, Suc w)),
      SessionsGet = (\<lambda>c w. (sess, Suc w)),
      CreateDevConnection = (\<lambda>c w. (dev, Suc w)),
      GoSyntax_dc = (\<lambda>dc w. dc),
      GoSyntax_ds = (\<lambda>ds w. ds)\<rparr>"


definition sample_data :: ResourceData where
  "sample_data =
     \<lparr>Get = (\<lambda>key. if key = ''base_url'' then ''https://looker.example.com/api/''
                   else if key = ''client_id'' then ''my-client-id''
                   else if key = ''client_secret'' then ''my-client-secret''
                   else []),
      ConnInfo = []\<rparr>"

definition sample_user_agent :: "string \<Rightarrow> string \<Rightarrow> string" where
  "sample_user_agent name version = name @ ''/'' @ version"

definition sample_provider :: Provider where
  "sample_provider = New sample_user_agent ''1.0''"

section \<open>Properties of the model-set resource\<close>

lemma tags_eval:
  "json_key ''BuiltIn'' = ''built_in''" "json_key ''Id'' = ''id''"
  "json_key ''AllAccess'' = ''all_access''" "json_key ''Models'' = ''models''"
  "json_key ''Name'' = ''name''"
  "omitempty ''BuiltIn''" "omitempty ''Id''" "omitempty ''AllAccess''"
  "omitempty ''Models''" "omitempty ''Name''"
  by (simp_all add: json_key_def omitempty_def ModelSet_tags_def)

lemma marshal_fields_unfold:
  "marshal_fields m =
     (if BuiltIn m then [(''built_in'', JBool True)] else []) @
     (if Id m = [] then [] else [(''id'', json_string (Id m))]) @
     (if AllAccess m then [(''all_access'', JBool True)] else []) @
     (case Models m of None \<Rightarrow> [] | Some ys \<Rightarrow>
        if ys = [] then [] else [(''models'', JArray (map json_string ys))]) @
     (if Name m = [] then [] else [(''name'', json_string (Name m))])"
  by (simp add: marshal_fields_def emit_bool_def emit_string_def emit_strings_def tags_eval
      split: option.splits)

lemma emit_strings_cases:
  "emit_strings ''Models'' xs = [] \<or>
   (\<exists>y ys. xs = Some (y # ys) \<and>
      emit_strings ''Models'' xs = [(''models'', JArray (map json_string (y # ys)))])"
  by (cases xs; cases "the xs") (simp_all add: emit_strings_def tags_eval)

lemma marshal_fields_keys:
  "set (map fst (marshal_fields m)) \<subseteq> {''built_in'', ''id'', ''all_access'', ''models'', ''name''}"
  using emit_strings_cases [of "Models m"]
  by (auto simp add: marshal_fields_def emit_bool_def emit_string_def tags_eval)

lemma marshal_fields_distinct: "distinct (map fst (marshal_fields m))"
  using emit_strings_cases [of "Models m"]
  by (auto simp add: marshal_fields_def emit_bool_def emit_string_def tags_eval)

text \<open>
  C1, as the code has it. \<^verbatim>\<open>Get\<close>, \<^verbatim>\<open>Create\<close>, \<^verbatim>\<open>Update\<close> and \<^verbatim>\<open>Delete\<close> of the model-set
  resource panic with the value "implement me", whatever the receiver and the arguments:
  none of them returns, so none returns an error value and none succeeds silently.
\<close>

theorem unwired_operations_panic:
  "Get_op s ctx modelSetId = Panic ''implement me'' \<and>
   Create_op s ctx modelSet = Panic ''implement me'' \<and>
   Update_op s ctx modelSetId modelSet = Panic ''implement me'' \<and>
   Delete_op s ctx modelSetId = Panic ''implement me'' \<and>
   \<not> returned (Get_op s ctx modelSetId) \<and>
   \<not> returned (Create_op s ctx modelSet) \<and>
   \<not> returned (Update_op s ctx modelSetId modelSet) \<and>
   \<not> returned (Delete_op s ctx modelSetId)"
  by (simp add: Get_op_def Create_op_def Update_op_def Delete_op_def)

text \<open>
  C1, as the claim states it, fails: \<^verbatim>\<open>Get\<close> on the model set "42" panics and returns
  nothing, hence no \<^verbatim>\<open>Unimplemented\<close> error value.
\<close>

theorem Get_returns_Unimplemented_counterexample:
  "panicked (Get_op \<lparr>client = (0::nat)\<rparr> () ''42''
      :: (ModelSet option \<times> unit option \<times> string option) go_result) \<and>
   \<not> returned (Get_op \<lparr>client = (0::nat)\<rparr> () ''42''
      :: (ModelSet option \<times> unit option \<times> string option) go_result)"
  by (simp add: Get_op_def)

text \<open>
  C5. For every list engine, context and client, \<^verbatim>\<open>List\<close> is the engine's answer for
  that client on the constant path "4.0/model_sets", with nil options and a nil
  destination slice; the path starts with the version segment "4.0/".
\<close>

theorem List_delegates_to_doList:
  "List_op doList s ctx = doList ctx (client s) ''4.0/model_sets'' None None \<and>
   prefix ''4.0/'' modelSetsBasePath"
  by (simp add: List_op_def modelSetsBasePath_def)

lemma json_string_ascii:
  "json_string ''7'' = JString ''7''"
  "json_string ''all'' = JString ''all''"
  "json_string ''thelook'' = JString ''thelook''"
  "json_string ''ecommerce'' = JString ''ecommerce''"
  by (simp_all add: json_string_def byte_def)

lemma json_string_invalid:
  "json_string [CHR 0xFF] = JString [CHR 0xEF, CHR 0xBF, CHR 0xBD]"
  "json_string [CHR ''a'', CHR 0xC3] = JString [CHR ''a'', CHR 0xEF, CHR 0xBF, CHR 0xBD]"
  "json_string [CHR 0xC3, CHR 0xA9] = JString [CHR 0xC3, CHR 0xA9]"
  by (simp_all add: json_string_def byte_def continuation_def between_def replacement_char_def)

text \<open>
  C8. \<^verbatim>\<open>ModelSet\<close> is plain data: \<^verbatim>\<open>modelSets.go\<close> declares no method with a
  \<^verbatim>\<open>ModelSet\<close> receiver, and the struct tags name exactly the five keys \<open>built_in\<close>,
  \<open>id\<close>, \<open>all_access\<close>, \<open>models\<close> and \<open>name\<close>. The encoding of every
  \<^verbatim>\<open>ModelSet\<close> is the object that holds, in this order, \<open>built_in\<close> as a boolean when
  it is true, \<open>id\<close> as a string when it is not empty, \<open>all_access\<close> as a boolean when
  it is true, \<open>models\<close> as an array of strings when it has an element, and \<open>name\<close>
  as a string when it is not empty; so its keys are among the five, each at most once.
  The strings are written as \<^verbatim>\<open>encoding/json\<close> writes them, ill-formed bytes replaced
  by U+FFFD.
\<close>

theorem ModelSet_wire_shape:
  "methods_of ''ModelSet'' = [] \<and>
   map (\<lambda>t. fst (snd t)) ModelSet_tags = [''built_in'', ''id'', ''all_access'', ''models'', ''name''] \<and>
   marshal m = JObject
     ((if BuiltIn m then [(''built_in'', JBool True)] else []) @
      (if Id m = [] then [] else [(''id'', JString (coerce_utf8 0 (Id m)))]) @
      (if AllAccess m then [(''all_access'', JBool True)] else []) @
      (case Models m of
         None \<Rightarrow> []
       | Some ys \<Rightarrow>
           if ys = [] then []
           else [(''models'', JArray (map (\<lambda>y. JString (coerce_utf8 0 y)) ys))]) @
      (if Name m = [] then [] else [(''name'', JString (coerce_utf8 0 (Name m)))])) \<and>
   set (map fst (marshal_fields m)) \<subseteq> {''built_in'', ''id'', ''all_access'', ''models'', ''name''} \<and>
   distinct (map fst (marshal_fields m))"
proof -
  have "methods_of ''ModelSet'' = []"
    by (simp add: methods_of_def declared_methods_def)
  moreover have "map (\<lambda>t. fst (snd t)) ModelSet_tags =
      [''built_in'', ''id'', ''all_access'', ''models'', ''name'']"
    by (simp add: ModelSet_tags_def)
  moreover have "marshal m = JObject
     ((if BuiltIn m then [(''built_in'', JBool True)] else []) @
      (if Id m = [] then [] else [(''id'', JString (coerce_utf8 0 (Id m)))]) @
      (if AllAccess m then [(''all_access'', JBool True)] else []) @
      (case Models m of
         None \<Rightarrow> []
       | Some ys \<Rightarrow>
           if ys = [] then []
           else [(''models'', JArray (map (\<lambda>y. JString (coerce_utf8 0 y)) ys))]) @
      (if Name m = [] then [] else [(''name'', JString (coerce_utf8 0 (Name m)))]))"
    unfolding marshal_def marshal_fields_unfold json_string_def ..
  ultimately show ?thesis
    using marshal_fields_keys [of m] marshal_fields_distinct [of m] by blast
qed

theorem ModelSet_wire_shape_witness:
  "marshal \<lparr>BuiltIn = True, Id = ''7'', AllAccess = True,
            Models = Some [''thelook'', ''ecommerce''], Name = ''all''\<rparr>
     = JObject
        [(''built_in'', JBool True), (''id'', JString ''7''), (''all_access'', JBool True),
         (''models'', JArray [JString ''thelook'', JString ''ecommerce'']),
         (''name'', JString ''all'')] \<and>
   marshal \<lparr>BuiltIn = False, Id = ''7'', AllAccess = False, Models = Some [], Name = [CHR 0xFF]\<rparr>
     = JObject [(''id'', JString ''7''), (''name'', JString [CHR 0xEF, CHR 0xBF, CHR 0xBD])] \<and>
   set (map fst (marshal_fields
          \<lparr>BuiltIn = False, Id = ''7'', AllAccess = False, Models = None, Name = ''all''\<rparr>))
     \<subseteq> {''built_in'', ''id'', ''all_access'', ''models'', ''name''}"
  using
    ModelSet_wire_shape [of "\<lparr>BuiltIn = True, Id = ''7'', AllAccess = True,
            Models = Some [''thelook'', ''ecommerce''], Name = ''all''\<rparr>"]
    ModelSet_wire_shape [of "\<lparr>BuiltIn = False, Id = ''7'', AllAccess = False,
            Models = Some [], Name = [CHR 0xFF]\<rparr>"]
    ModelSet_wire_shape [of "\<lparr>BuiltIn = False, Id = ''7'', AllAccess = False,
            Models = None, Name = ''all''\<rparr>"]
    json_string_ascii json_string_invalid
  by (simp add: json_string_def)

text \<open>
  C10. Every tag of \<^verbatim>\<open>ModelSet\<close> carries \<^verbatim>\<open>omitempty\<close>; the zero value is encoded as the
  empty object, and so is exactly every \<^verbatim>\<open>ModelSet\<close> whose fields are all empty
  (\<^verbatim>\<open>false\<close>, the empty string, a nil or an empty slice). Hence whatever decodes the
  encoding cannot tell such a value from the zero value: explicit \<^verbatim>\<open>false\<close> or empty
  and absent are the same on the wire.
\<close>

theorem omitempty_zero_is_empty_object:
  "(\<forall>t \<in> set ModelSet_tags. omitempty (fst t)) \<and>
   marshal ModelSet_zero = JObject [] \<and>
   (marshal m = JObject [] \<longleftrightarrow> all_empty m) \<and>
   (all_empty m \<longrightarrow> dec (marshal m) = dec (marshal ModelSet_zero))"
  by (auto simp add: marshal_def marshal_fields_unfold ModelSet_tags_def tags_eval all_empty_def
      ModelSet_zero_def split: option.splits)

theorem omitempty_zero_is_empty_object_witness:
  "all_empty \<lparr>BuiltIn = False, Id = [], AllAccess = False, Models = Some [], Name = []\<rparr> \<and>
   marshal \<lparr>BuiltIn = False, Id = [], AllAccess = False, Models = Some [], Name = []\<rparr> = JObject [] \<and>
   \<lparr>BuiltIn = False, Id = [], AllAccess = False, Models = Some [], Name = []\<rparr> \<noteq> ModelSet_zero"
  using omitempty_zero_is_empty_object
    [where m = "\<lparr>BuiltIn = False, Id = [], AllAccess = False, Models = Some [], Name = []\<rparr>"
       and dec = "\<lambda>j. j"]
  by (simp add: all_empty_def ModelSet_zero_def)

section \<open>Properties of the provider configuration\<close>

text \<open>
  The eight ways a run of \<^verbatim>\<open>providerConfigure\<close> can go, each with the answers of the
  client library that lead to it and the outcome it produces.
\<close>

lemma run_SetBaseURL_fails:
  assumes "NewClient env w0 = (cl, w1)"
    and "SetBaseURL env cl (Get d ''base_url'') w1 = (Some e, w2)"
  shows "providerConfigure env d p version w0 =
       \<lparr>ret = Return (None, [\<lparr>Severity = Error, Summary = ''Unable to set looker API endpoint'', Detail = ''Err: '' @ e\<rparr>]),
        calls = [NewClient_call cl,
          SetBaseURL_call (Get d ''base_url'') (Some e)],
        logs = [Debug ''Configure provider''
                 [(''conninfo'', LConnInfo (ConnInfo d)), (''schema'', LSchema (Schema p))],
               Debug ''Provider config'' [(''client_id'', LString (Get d ''client_id''))]],
        stdout = [], world = w2\<rparr>"
  using assms by (auto simp add: providerConfigure_def Let_def)

lemma run_SetOauthCredentials_fails:
  assumes "NewClient env w0 = (cl, w1)"
    and "SetBaseURL env cl (Get d ''base_url'') w1 = (None, w2)"
    and "SetOauthCredentials env cl (Get d ''client_id'') (Get d ''client_secret'') w2 = (Some e, w3)"
  shows "providerConfigure env d p version w0 =
       \<lparr>ret = Return (None, [\<lparr>Severity = Error, Summary = ''Unable to set looker API client_id/client_secret'', Detail = ''Err: '' @ e\<rparr>]),
        calls = [NewClient_call cl,
          SetBaseURL_call (Get d ''base_url'') None,
          SetOauthCredentials_call (Get d ''client_id'') (Get d ''client_secret'') (Some e)],
        logs = [Debug ''Configure provider''
                 [(''conninfo'', LConnInfo (ConnInfo d)), (''schema'', LSchema (Schema p))],
               Debug ''Provider config'' [(''client_id'', LString (Get d ''client_id''))]],
        stdout = [], world = w3\<rparr>"
  using assms by (auto simp add: providerConfigure_def Let_def)

lemma run_SetUserAgent_fails:
  assumes "NewClient env w0 = (cl, w1)"
    and "SetBaseURL env cl (Get d ''base_url'') w1 = (None, w2)"
    and "SetOauthCredentials env cl (Get d ''client_id'') (Get d ''client_secret'') w2 = (None, w3)"
    and "SetUserAgent env cl (UserAgent p ''terraform-provider-looker'' version) w3 = (Some e, w4)"
  shows "providerConfigure env d p version w0 =
       \<lparr>ret = Return (None, [\<lparr>Severity = Error, Summary = ''Unable to set looker API user-agent'', Detail = ''Err: '' @ e\<rparr>]),
        calls = [NewClient_call cl,
          SetBaseURL_call (Get d ''base_url'') None,
          SetOauthCredentials_call (Get d ''client_id'') (Get d ''client_secret'') None,
          SetUserAgent_call (UserAgent p ''terraform-provider-looker'' version) (Some e)],
        logs = [Debug ''Configure provider''
                 [(''conninfo'', LConnInfo (ConnInfo d)), (''schema'', LSchema (Schema p))],
               Debug ''Provider config'' [(''client_id'', LString (Get d ''client_id''))]],
        stdout = [], world = w4\<rparr>"
  using assms by (auto simp add: providerConfigure_def Let_def)

lemma run_SessionsGet_fails:
  assumes "NewClient env w0 = (cl, w1)"
    and "SetBaseURL env cl (Get d ''base_url'') w1 = (None, w2)"
    and "SetOauthCredentials env cl (Get d ''client_id'') (Get d ''client_secret'') w2 = (None, w3)"
    and "SetUserAgent env cl (UserAgent p ''terraform-provider-looker'' version) w3 = (None, w4)"
    and "SessionsGet env cl w4 = ((session, Some e), w5)"
  shows "providerConfigure env d p version w0 =
       \<lparr>ret = Return (None, [\<lparr>Severity = Error, Summary = ''Unable to create Looker client'', Detail = ''Unable to authenticate user for authenticated Looker client: '' @ e\<rparr>]),
        calls = [NewClient_call cl,
          SetBaseURL_call (Get d ''base_url'') None,
          SetOauthCredentials_call (Get d ''client_id'') (Get d ''client_secret'') None,
          SetUserAgent_call (UserAgent p ''terraform-provider-looker'' version) None,
          SessionsGet_call session (Some e)],
        logs = [Debug ''Configure provider''
                 [(''conninfo'', LConnInfo (ConnInfo d)), (''schema'', LSchema (Schema p))],
               Debug ''Provider config'' [(''client_id'', LString (Get d ''client_id''))]],
        stdout = [], world = w5\<rparr>"
  using assms by (auto simp add: providerConfigure_def Let_def)

lemma run_session_nil:
  assumes "NewClient env w0 = (cl, w1)"
    and "SetBaseURL env cl (Get d ''base_url'') w1 = (None, w2)"
    and "SetOauthCredentials env cl (Get d ''client_id'') (Get d ''client_secret'') w2 = (None, w3)"
    and "SetUserAgent env cl (UserAgent p ''terraform-provider-looker'' version) w3 = (None, w4)"
    and "SessionsGet env cl w4 = ((None, None), w5)"
  shows "providerConfigure env d p version w0 =
       \<lparr>ret = Panic nil_deref,
        calls = [NewClient_call cl,
          SetBaseURL_call (Get d ''base_url'') None,
          SetOauthCredentials_call (Get d ''client_id'') (Get d ''client_secret'') None,
          SetUserAgent_call (UserAgent p ''terraform-provider-looker'' version) None,
          SessionsGet_call None None],
        logs = [Debug ''Configure provider''
                 [(''conninfo'', LConnInfo (ConnInfo d)), (''schema'', LSchema (Schema p))],
               Debug ''Provider config'' [(''client_id'', LString (Get d ''client_id''))]],
        stdout = [], world = w5\<rparr>"
  using assms by (auto simp add: providerConfigure_def Let_def)

lemma run_unknown_workspace:
  assumes "NewClient env w0 = (cl, w1)"
    and "SetBaseURL env cl (Get d ''base_url'') w1 = (None, w2)"
    and "SetOauthCredentials env cl (Get d ''client_id'') (Get d ''client_secret'') w2 = (None, w3)"
    and "SetUserAgent env cl (UserAgent p ''terraform-provider-looker'' version) w3 = (None, w4)"
    and "SessionsGet env cl w4 = ((Some s, None), w5)"
    and "WorkspaceId s \<noteq> ''production''"
    and "WorkspaceId s \<noteq> ''dev''"
  shows "providerConfigure env d p version w0 =
       \<lparr>ret = Return (None, [\<lparr>Severity = Error, Summary = ''Session Workspace ID is nome of production/dev'', Detail = ''Unable to find workspace ID in /session call''\<rparr>]),
        calls = [NewClient_call cl,
          SetBaseURL_call (Get d ''base_url'') None,
          SetOauthCredentials_call (Get d ''client_id'') (Get d ''client_secret'') None,
          SetUserAgent_call (UserAgent p ''terraform-provider-looker'' version) None,
          SessionsGet_call (Some s) None],
        logs = [Debug ''Configure provider''
                 [(''conninfo'', LConnInfo (ConnInfo d)), (''schema'', LSchema (Schema p))],
               Debug ''Provider config'' [(''client_id'', LString (Get d ''client_id''))]],
        stdout = [], world = w5\<rparr>"
  using assms by (auto simp add: providerConfigure_def Let_def)

lemma run_CreateDevConnection_fails:
  assumes "NewClient env w0 = (cl, w1)"
    and "SetBaseURL env cl (Get d ''base_url'') w1 = (None, w2)"
    and "SetOauthCredentials env cl (Get d ''client_id'') (Get d ''client_secret'') w2 = (None, w3)"
    and "SetUserAgent env cl (UserAgent p ''terraform-provider-looker'' version) w3 = (None, w4)"
    and "SessionsGet env cl w4 = ((Some s, None), w5)"
    and "WorkspaceId s = ''production'' \<or> WorkspaceId s = ''dev''"
    and "CreateDevConnection env cl w5 = (Inl e, w6)"
  shows "providerConfigure env d p version w0 =
       \<lparr>ret = Return (None, [\<lparr>Severity = Error, Summary = ''Unable to create Looker client'', Detail = ''Unable to authenticate user for authenticated Looker client: '' @ e\<rparr>]),
        calls = [NewClient_call cl,
          SetBaseURL_call (Get d ''base_url'') None,
          SetOauthCredentials_call (Get d ''client_id'') (Get d ''client_secret'') None,
          SetUserAgent_call (UserAgent p ''terraform-provider-looker'' version) None,
          SessionsGet_call (Some s) None,
          CreateDevConnection_call (Some e)],
        logs = [Debug ''Configure provider''
                 [(''conninfo'', LConnInfo (ConnInfo d)), (''schema'', LSchema (Schema p))],
               Debug ''Provider config'' [(''client_id'', LString (Get d ''client_id''))]],
        stdout = [], world = w6\<rparr>"
  using assms by (auto simp add: providerConfigure_def Let_def)

lemma run_configured:
  assumes "NewClient env w0 = (cl, w1)"
    and "SetBaseURL env cl (Get d ''base_url'') w1 = (None, w2)"
    and "SetOauthCredentials env cl (Get d ''client_id'') (Get d ''client_secret'') w2 = (None, w3)"
    and "SetUserAgent env cl (UserAgent p ''terraform-provider-looker'' version) w3 = (None, w4)"
    and "SessionsGet env cl w4 = ((Some s, None), w5)"
    and "WorkspaceId s = ''production'' \<or> WorkspaceId s = ''dev''"
    and "CreateDevConnection env cl w5 = (Inr (dc, ds), w6)"
  shows "providerConfigure env d p version w0 =
       \<lparr>ret = Return (Some \<lparr>Api = Some cl, Workspace = (if WorkspaceId s = ''production'' then WorkspaceProduction else WorkspaceDev)\<rparr>, []),
        calls = [NewClient_call cl,
          SetBaseURL_call (Get d ''base_url'') None,
          SetOauthCredentials_call (Get d ''client_id'') (Get d ''client_secret'') None,
          SetUserAgent_call (UserAgent p ''terraform-provider-looker'' version) None,
          SessionsGet_call (Some s) None,
          CreateDevConnection_call None],
        logs = [Debug ''Configure provider''
                 [(''conninfo'', LConnInfo (ConnInfo d)), (''schema'', LSchema (Schema p))],
               Debug ''Provider config'' [(''client_id'', LString (Get d ''client_id''))]],
        stdout = ''dc: '' @ GoSyntax_dc env dc w6 @ [CHR 0x0A] @ ''ds: '' @ GoSyntax_ds env ds w6 @ [CHR 0x0A], world = w6\<rparr>"
  using assms by (auto simp add: providerConfigure_def Let_def)

lemma providerConfigure_cases:
  obtains
    (SetBaseURL_fails) cl w1 e w2 where
      "NewClient env w0 = (cl, w1)"
      "SetBaseURL env cl (Get d ''base_url'') w1 = (Some e, w2)"
      "providerConfigure env d p version w0 =
       \<lparr>ret = Return (None, [\<lparr>Severity = Error, Summary = ''Unable to set looker API endpoint'', Detail = ''Err: '' @ e\<rparr>]),
        calls = [NewClient_call cl,
          SetBaseURL_call (Get d ''base_url'') (Some e)],
        logs = [Debug ''Configure provider''
                 [(''conninfo'', LConnInfo (ConnInfo d)), (''schema'', LSchema (Schema p))],
               Debug ''Provider config'' [(''client_id'', LString (Get d ''client_id''))]],
        stdout = [], world = w2\<rparr>"
  | (SetOauthCredentials_fails) cl w1 w2 e w3 where
      "NewClient env w0 = (cl, w1)"
      "SetBaseURL env cl (Get d ''base_url'') w1 = (None, w2)"
      "SetOauthCredentials env cl (Get d ''client_id'') (Get d ''client_secret'') w2 = (Some e, w3)"
      "providerConfigure env d p version w0 =
       \<lparr>ret = Return (None, [\<lparr>Severity = Error, Summary = ''Unable to set looker API client_id/client_secret'', Detail = ''Err: '' @ e\<rparr>]),
        calls = [NewClient_call cl,
          SetBaseURL_call (Get d ''base_url'') None,
          SetOauthCredentials_call (Get d ''client_id'') (Get d ''client_secret'') (Some e)],
        logs = [Debug ''Configure provider''
                 [(''conninfo'', LConnInfo (ConnInfo d)), (''schema'', LSchema (Schema p))],
               Debug ''Provider config'' [(''client_id'', LString (Get d ''client_id''))]],
        stdout = [], world = w3\<rparr>"
  | (SetUserAgent_fails) cl w1 w2 w3 e w4 where
      "NewClient env w0 = (cl, w1)"
      "SetBaseURL env cl (Get d ''base_url'') w1 = (None, w2)"
      "SetOauthCredentials env cl (Get d ''client_id'') (Get d ''client_secret'') w2 = (None, w3)"
      "SetUserAgent env cl (UserAgent p ''terraform-provider-looker'' version) w3 = (Some e, w4)"
      "providerConfigure env d p version w0 =
       \<lparr>ret = Return (None, [\<lparr>Severity = Error, Summary = ''Unable to set looker API user-agent'', Detail = ''Err: '' @ e\<rparr>]),
        calls = [NewClient_call cl,
          SetBaseURL_call (Get d ''base_url'') None,
          SetOauthCredentials_call (Get d ''client_id'') (Get d ''client_secret'') None,
          SetUserAgent_call (UserAgent p ''terraform-provider-looker'' version) (Some e)],
        logs = [Debug ''Configure provider''
                 [(''conninfo'', LConnInfo (ConnInfo d)), (''schema'', LSchema (Schema p))],
               Debug ''Provider config'' [(''client_id'', LString (Get d ''client_id''))]],
        stdout = [], world = w4\<rparr>"
  | (SessionsGet_fails) cl w1 w2 w3 w4 session e w5 where
      "NewClient env w0 = (cl, w1)"
      "SetBaseURL env cl (Get d ''base_url'') w1 = (None, w2)"
      "SetOauthCredentials env cl (Get d ''client_id'') (Get d ''client_secret'') w2 = (None, w3)"
      "SetUserAgent env cl (UserAgent p ''terraform-provider-looker'' version) w3 = (None, w4)"
      "SessionsGet env cl w4 = ((session, Some e), w5)"
      "providerConfigure env d p version w0 =
       \<lparr>ret = Return (None, [\<lparr>Severity = Error, Summary = ''Unable to create Looker client'', Detail = ''Unable to authenticate user for authenticated Looker client: '' @ e\<rparr>]),
        calls = [NewClient_call cl,
          SetBaseURL_call (Get d ''base_url'') None,
          SetOauthCredentials_call (Get d ''client_id'') (Get d ''client_secret'') None,
          SetUserAgent_call (UserAgent p ''terraform-provider-looker'' version) None,
          SessionsGet_call session (Some e)],
        logs = [Debug ''Configure provider''
                 [(''conninfo'', LConnInfo (ConnInfo d)), (''schema'', LSchema (Schema p))],
               Debug ''Provider config'' [(''client_id'', LString (Get d ''client_id''))]],
        stdout = [], world = w5\<rparr>"
  | (session_nil) cl w1 w2 w3 w4 w5 where
      "NewClient env w0 = (cl, w1)"
      "SetBaseURL env cl (Get d ''base_url'') w1 = (None, w2)"
      "SetOauthCredentials env cl (Get d ''client_id'') (Get d ''client_secret'') w2 = (None, w3)"
      "SetUserAgent env cl (UserAgent p ''terraform-provider-looker'' version) w3 = (None, w4)"
      "SessionsGet env cl w4 = ((None, None), w5)"
      "providerConfigure env d p version w0 =
       \<lparr>ret = Panic nil_deref,
        calls = [NewClient_call cl,
          SetBaseURL_call (Get d ''base_url'') None,
          SetOauthCredentials_call (Get d ''client_id'') (Get d ''client_secret'') None,
          SetUserAgent_call (UserAgent p ''terraform-provider-looker'' version) None,
          SessionsGet_call None None],
        logs = [Debug ''Configure provider''
                 [(''conninfo'', LConnInfo (ConnInfo d)), (''schema'', LSchema (Schema p))],
               Debug ''Provider config'' [(''client_id'', LString (Get d ''client_id''))]],
        stdout = [], world = w5\<rparr>"
  | (unknown_workspace) cl w1 w2 w3 w4 s w5 where
      "NewClient env w0 = (cl, w1)"
      "SetBaseURL env cl (Get d ''base_url'') w1 = (None, w2)"
      "SetOauthCredentials env cl (Get d ''client_id'') (Get d ''client_secret'') w2 = (None, w3)"
      "SetUserAgent env cl (UserAgent p ''terraform-provider-looker'' version) w3 = (None, w4)"
      "SessionsGet env cl w4 = ((Some s, None), w5)"
      "WorkspaceId s \<noteq> ''production''"
      "WorkspaceId s \<noteq> ''dev''"
      "providerConfigure env d p version w0 =
       \<lparr>ret = Return (None, [\<lparr>Severity = Error, Summary = ''Session Workspace ID is nome of production/dev'', Detail = ''Unable to find workspace ID in /session call''\<rparr>]),
        calls = [NewClient_call cl,
          SetBaseURL_call (Get d ''base_url'') None,
          SetOauthCredentials_call (Get d ''client_id'') (Get d ''client_secret'') None,
          SetUserAgent_call (UserAgent p ''terraform-provider-looker'' version) None,
          SessionsGet_call (Some s) None],
        logs = [Debug ''Configure provider''
                 [(''conninfo'', LConnInfo (ConnInfo d)), (''schema'', LSchema (Schema p))],
               Debug ''Provider config'' [(''client_id'', LString (Get d ''client_id''))]],
        stdout = [], world = w5\<rparr>"
  | (CreateDevConnection_fails) cl w1 w2 w3 w4 s w5 e w6 where
      "NewClient env w0 = (cl, w1)"
      "SetBaseURL env cl (Get d ''base_url'') w1 = (None, w2)"
      "SetOauthCredentials env cl (Get d ''client_id'') (Get d ''client_secret'') w2 = (None, w3)"
      "SetUserAgent env cl (UserAgent p ''terraform-provider-looker'' version) w3 = (None, w4)"
      "SessionsGet env cl w4 = ((Some s, None), w5)"
      "WorkspaceId s = ''production'' \<or> WorkspaceId s = ''dev''"
      "CreateDevConnection env cl w5 = (Inl e, w6)"
      "providerConfigure env d p version w0 =
       \<lparr>ret = Return (None, [\<lparr>Severity = Error, Summary = ''Unable to create Looker client'', Detail = ''Unable to authenticate user for authenticated Looker client: '' @ e\<rparr>]),
        calls = [NewClient_call cl,
          SetBaseURL_call (Get d ''base_url'') None,
          SetOauthCredentials_call (Get d ''client_id'') (Get d ''client_secret'') None,
          SetUserAgent_call (UserAgent p ''terraform-provider-looker'' version) None,
          SessionsGet_call (Some s) None,
          CreateDevConnection_call (Some e)],
        logs = [Debug ''Configure provider''
                 [(''conninfo'', LConnInfo (ConnInfo d)), (''schema'', LSchema (Schema p))],
               Debug ''Provider config'' [(''client_id'', LString (Get d ''client_id''))]],
        stdout = [], world = w6\<rparr>"
  | (configured) cl w1 w2 w3 w4 s w5 dc ds w6 where
      "NewClient env w0 = (cl, w1)"
      "SetBaseURL env cl (Get d ''base_url'') w1 = (None, w2)"
      "SetOauthCredentials env cl (Get d ''client_id'') (Get d ''client_secret'') w2 = (None, w3)"
      "SetUserAgent env cl (UserAgent p ''terraform-provider-looker'' version) w3 = (None, w4)"
      "SessionsGet env cl w4 = ((Some s, None), w5)"
      "WorkspaceId s = ''production'' \<or> WorkspaceId s = ''dev''"
      "CreateDevConnection env cl w5 = (Inr (dc, ds), w6)"
      "providerConfigure env d p version w0 =
       \<lparr>ret = Return (Some \<lparr>Api = Some cl, Workspace = (if WorkspaceId s = ''production'' then WorkspaceProduction else WorkspaceDev)\<rparr>, []),
        calls = [NewClient_call cl,
          SetBaseURL_call (Get d ''base_url'') None,
          SetOauthCredentials_call (Get d ''client_id'') (Get d ''client_secret'') None,
          SetUserAgent_call (UserAgent p ''terraform-provider-looker'' version) None,
          SessionsGet_call (Some s) None,
          CreateDevConnection_call None],
        logs = [Debug ''Configure provider''
                 [(''conninfo'', LConnInfo (ConnInfo d)), (''schema'', LSchema (Schema p))],
               Debug ''Provider config'' [(''client_id'', LString (Get d ''client_id''))]],
        stdout = ''dc: '' @ GoSyntax_dc env dc w6 @ [CHR 0x0A] @ ''ds: '' @ GoSyntax_ds env ds w6 @ [CHR 0x0A], world = w6\<rparr>"
proof -
  obtain cl w1 where a0: "NewClient env w0 = (cl, w1)"
    by (cases "NewClient env w0")
  obtain e1 w2 where a1: "SetBaseURL env cl (Get d ''base_url'') w1 = (e1, w2)"
    by (cases "SetBaseURL env cl (Get d ''base_url'') w1")
  obtain e2 w3 where
    a2: "SetOauthCredentials env cl (Get d ''client_id'') (Get d ''client_secret'') w2 = (e2, w3)"
    by (cases "SetOauthCredentials env cl (Get d ''client_id'') (Get d ''client_secret'') w2")
  obtain e3 w4 where
    a3: "SetUserAgent env cl (UserAgent p ''terraform-provider-looker'' version) w3 = (e3, w4)"
    by (cases "SetUserAgent env cl (UserAgent p ''terraform-provider-looker'' version) w3")
  obtain session e4 w5 where a4: "SessionsGet env cl w4 = ((session, e4), w5)"
    by (cases "SessionsGet env cl w4") auto
  obtain dev w6 where a6: "CreateDevConnection env cl w5 = (dev, w6)"
    by (cases "CreateDevConnection env cl w5")
  show thesis
  proof (cases e1)
    case (Some e)
    with a0 a1 show thesis by (auto intro: SetBaseURL_fails run_SetBaseURL_fails)
  next
    case b1: None
    show thesis
    proof (cases e2)
      case (Some e)
      with a0 a1 a2 b1 show thesis
        by (auto intro: SetOauthCredentials_fails run_SetOauthCredentials_fails)
    next
      case b2: None
      show thesis
      proof (cases e3)
        case (Some e)
        with a0 a1 a2 a3 b1 b2 show thesis
          by (auto intro: SetUserAgent_fails run_SetUserAgent_fails)
      next
        case b3: None
        show thesis
        proof (cases e4)
          case (Some e)
          with a0 a1 a2 a3 a4 b1 b2 b3 show thesis
            by (auto intro: SessionsGet_fails run_SessionsGet_fails)
        next
          case b4: None
          show thesis
          proof (cases session)
            case None
            with a0 a1 a2 a3 a4 b1 b2 b3 b4 show thesis
              by (auto intro: session_nil run_session_nil)
          next
            case (Some s)
            note c = a0 a1 [unfolded b1] a2 [unfolded b2] a3 [unfolded b3] a4 [unfolded b4 Some]
            show thesis
            proof (cases "WorkspaceId s = ''production'' \<or> WorkspaceId s = ''dev''")
              case False
              then have n: "WorkspaceId s \<noteq> ''production''" "WorkspaceId s \<noteq> ''dev''"
                by simp_all
              show thesis
                by (rule unknown_workspace [OF c n run_unknown_workspace [OF c n]])
            next
              case True
              show thesis
              proof (cases dev)
                case (Inl e)
                note c6 = a6 [unfolded Inl]
                show thesis
                  by (rule CreateDevConnection_fails
                      [OF c True c6 run_CreateDevConnection_fails [OF c True c6]])
              next
                case (Inr v)
                obtain dc ds where v: "v = (dc, ds)" by (cases v)
                note c6 = a6 [unfolded Inr v]
                show thesis
                  by (rule configured [OF c True c6 run_configured [OF c True c6]])
              qed
            qed
          qed
        qed
      qed
    qed
  qed
qed

lemma sample_Get:
  "Get sample_data ''base_url'' = ''https://looker.example.com/api/''"
  "Get sample_data ''client_id'' = ''my-client-id''"
  "Get sample_data ''client_secret'' = ''my-client-secret''"
  by (simp_all add: sample_data_def)

lemma scripted_sel:
  "NewClient (scripted e1 e2 e3 sess dev) w = (w, Suc w)"
  "SetBaseURL (scripted e1 e2 e3 sess dev) c url w = (e1, Suc w)"
  "SetOauthCredentials (scripted e1 e2 e3 sess dev) c i k w = (e2, Suc w)"
  "SetUserAgent (scripted e1 e2 e3 sess dev) c ua w = (e3, Suc w)"
  "SessionsGet (scripted e1 e2 e3 sess dev) c w = (sess, Suc w)"
  "CreateDevConnection (scripted e1 e2 e3 sess dev) c w = (dev, Suc w)"
  "GoSyntax_dc (scripted e1 e2 e3 sess dev) x w = x"
  "GoSyntax_ds (scripted e1 e2 e3 sess dev) y w = y"
  by (simp_all add: scripted_def)

lemmas run_sample =
  providerConfigure_def Let_def scripted_sel sample_Get sample_provider_def New_def
  sample_user_agent_def

text \<open>
  C2. A session whose workspace is neither \<open>production\<close> nor \<open>dev\<close> makes the
  configuration fail: the result is \<^verbatim>\<open>nil\<close> with the one error diagnostic of the
  \<^verbatim>\<open>default\<close> branch, \<^verbatim>\<open>Sessions.Get\<close> is the last call made and nothing is printed.
  And no other workspace is accepted: a configuration is returned only when the session's
  workspace is one of the two.
\<close>

theorem unknown_workspace_is_fatal:
  assumes "out = providerConfigure env d p version w0"
  shows
   "(SessionsGet_call (Some sess) None \<in> set (calls out) \<and>
     WorkspaceId sess \<noteq> ''production'' \<and> WorkspaceId sess \<noteq> ''dev'' \<longrightarrow>
       ret out =
         Return (None,
           [\<lparr>Severity = Error,
             Summary = ''Session Workspace ID is nome of production/dev'',
             Detail = ''Unable to find workspace ID in /session call''\<rparr>]) \<and>
       last (calls out) = SessionsGet_call (Some sess) None \<and>
       stdout out = []) \<and>
    (ret out = Return (Some cfg, ds) \<longrightarrow>
       (\<exists>s. SessionsGet_call (Some s) None \<in> set (calls out) \<and>
            (WorkspaceId s = ''production'' \<or> WorkspaceId s = ''dev'')))"
  unfolding assms
  by (cases rule: providerConfigure_cases [where env = env and d = d and p = p
        and version = version and ?w0.0 = w0]) auto

theorem unknown_workspace_is_fatal_witness:
  "SessionsGet_call (Some \<lparr>WorkspaceId = ''staging''\<rparr>) None
     \<in> set (calls (providerConfigure
         (scripted None None None (Some \<lparr>WorkspaceId = ''staging''\<rparr>, None) (Inr (''c'', ''s'')))
         sample_data sample_provider ''1.0'' 0)) \<and>
   ret (providerConfigure
         (scripted None None None (Some \<lparr>WorkspaceId = ''staging''\<rparr>, None) (Inr (''c'', ''s'')))
         sample_data sample_provider ''1.0'' 0) =
     Return (None,
       [\<lparr>Severity = Error,
         Summary = ''Session Workspace ID is nome of production/dev'',
         Detail = ''Unable to find workspace ID in /session call''\<rparr>])"
proof -
  have h: "SessionsGet_call (Some \<lparr>WorkspaceId = ''staging''\<rparr>) None
     \<in> set (calls (providerConfigure
         (scripted None None None (Some \<lparr>WorkspaceId = ''staging''\<rparr>, None) (Inr (''c'', ''s'')))
         sample_data sample_provider ''1.0'' 0))"
    by (simp add: run_sample)
  show ?thesis
    using h unknown_workspace_is_fatal [OF refl,
      where env = "scripted None None None (Some \<lparr>WorkspaceId = ''staging''\<rparr>, None) (Inr (''c'', ''s''))"
        and d = sample_data and p = sample_provider and version = "''1.0''" and ?w0.0 = 0
        and sess = "\<lparr>WorkspaceId = ''staging''\<rparr>"]
    by simp
qed

text \<open>
  C9. Name the answers of the client library along a run. \<^verbatim>\<open>providerConfigure\<close> returns
  a configuration exactly when the four setup calls and \<^verbatim>\<open>CreateDevConnection\<close> report no
  error and the session that \<^verbatim>\<open>Sessions.Get\<close> returned is in \<open>production\<close> or in
  \<open>dev\<close>; the diagnostics are then empty, \<^verbatim>\<open>Api\<close> is the client that \<^verbatim>\<open>NewClient\<close>
  allocated (not \<^verbatim>\<open>nil\<close>), and \<^verbatim>\<open>Workspace\<close> is \<^verbatim>\<open>WorkspaceProduction\<close> for that
  session in \<open>production\<close> and \<^verbatim>\<open>WorkspaceDev\<close> for it in \<open>dev\<close>.
\<close>

theorem successful_config_invariant:
  assumes "NewClient env w0 = (cl, w1)"
    and "SetBaseURL env cl (Get d ''base_url'') w1 = (e1, w2)"
    and "SetOauthCredentials env cl (Get d ''client_id'') (Get d ''client_secret'') w2 = (e2, w3)"
    and "SetUserAgent env cl (UserAgent p ''terraform-provider-looker'' version) w3 = (e3, w4)"
    and "SessionsGet env cl w4 = ((session, e4), w5)"
    and "CreateDevConnection env cl w5 = (dev, w6)"
  shows
   "ret (providerConfigure env d p version w0) = Return (Some cfg, ds) \<longleftrightarrow>
      e1 = None \<and> e2 = None \<and> e3 = None \<and> e4 = None \<and> (\<exists>dc dss. dev = Inr (dc, dss)) \<and>
      ds = [] \<and> Api cfg = Some cl \<and> Api cfg \<noteq> None \<and>
      (\<exists>s. session = Some s \<and>
           (WorkspaceId s = ''production'' \<and> Workspace cfg = WorkspaceProduction \<or>
            WorkspaceId s = ''dev'' \<and> Workspace cfg = WorkspaceDev))"
  using assms
  by (cases rule: providerConfigure_cases [where env = env and d = d and p = p
        and version = version and ?w0.0 = w0]) auto

theorem successful_config_invariant_witness:
  "ret (providerConfigure (scripted None None None (Some \<lparr>WorkspaceId = ''production''\<rparr>, None) (Inr (''c'', ''s'')))
         sample_data sample_provider ''1.0'' 0) =
     Return (Some \<lparr>Api = Some 0, Workspace = WorkspaceProduction\<rparr>, []) \<and>
   ret (providerConfigure (scripted None None None (Some \<lparr>WorkspaceId = ''dev''\<rparr>, None) (Inr (''c'', ''s'')))
         sample_data sample_provider ''1.0'' 0) =
     Return (Some \<lparr>Api = Some 0, Workspace = WorkspaceDev\<rparr>, [])"
proof -
  have a: "ret (providerConfigure (scripted None None None (Some \<lparr>WorkspaceId = ''production''\<rparr>, None) (Inr (''c'', ''s'')))
         sample_data sample_provider ''1.0'' 0) =
     Return (Some \<lparr>Api = Some 0, Workspace = WorkspaceProduction\<rparr>, [])"
  proof -
    have h0: "NewClient (scripted None None None (Some \<lparr>WorkspaceId = ''production''\<rparr>, None) (Inr (''c'', ''s''))) 0 = (0, 1)"
      and h1: "SetBaseURL (scripted None None None (Some \<lparr>WorkspaceId = ''production''\<rparr>, None) (Inr (''c'', ''s''))) 0
                 (Get sample_data ''base_url'') 1 = (None, 2)"
      and h2: "SetOauthCredentials (scripted None None None (Some \<lparr>WorkspaceId = ''production''\<rparr>, None) (Inr (''c'', ''s''))) 0
                 (Get sample_data ''client_id'') (Get sample_data ''client_secret'') 2 = (None, 3)"
      and h3: "SetUserAgent (scripted None None None (Some \<lparr>WorkspaceId = ''production''\<rparr>, None) (Inr (''c'', ''s''))) 0
                 (UserAgent sample_provider ''terraform-provider-looker'' ''1.0'') 3 = (None, 4)"
      and h4: "SessionsGet (scripted None None None (Some \<lparr>WorkspaceId = ''production''\<rparr>, None) (Inr (''c'', ''s''))) 0 4
                 = ((Some \<lparr>WorkspaceId = ''production''\<rparr>, None), 5)"
      and h5: "CreateDevConnection (scripted None None None (Some \<lparr>WorkspaceId = ''production''\<rparr>, None) (Inr (''c'', ''s''))) 0 5
                 = (Inr (''c'', ''s''), 6)"
      by (simp_all add: scripted_sel)
    show ?thesis
      using successful_config_invariant [OF h0 h1 h2 h3 h4 h5] by simp
  qed
  have b: "ret (providerConfigure (scripted None None None (Some \<lparr>WorkspaceId = ''dev''\<rparr>, None) (Inr (''c'', ''s'')))
         sample_data sample_provider ''1.0'' 0) =
     Return (Some \<lparr>Api = Some 0, Workspace = WorkspaceDev\<rparr>, [])"
  proof -
    have h0: "NewClient (scripted None None None (Some \<lparr>WorkspaceId = ''dev''\<rparr>, None) (Inr (''c'', ''s''))) 0 = (0, 1)"
      and h1: "SetBaseURL (scripted None None None (Some \<lparr>WorkspaceId = ''dev''\<rparr>, None) (Inr (''c'', ''s''))) 0
                 (Get sample_data ''base_url'') 1 = (None, 2)"
      and h2: "SetOauthCredentials (scripted None None None (Some \<lparr>WorkspaceId = ''dev''\<rparr>, None) (Inr (''c'', ''s''))) 0
                 (Get sample_data ''client_id'') (Get sample_data ''client_secret'') 2 = (None, 3)"
      and h3: "SetUserAgent (scripted None None None (Some \<lparr>WorkspaceId = ''dev''\<rparr>, None) (Inr (''c'', ''s''))) 0
                 (UserAgent sample_provider ''terraform-provider-looker'' ''1.0'') 3 = (None, 4)"
      and h4: "SessionsGet (scripted None None None (Some \<lparr>WorkspaceId = ''dev''\<rparr>, None) (Inr (''c'', ''s''))) 0 4
                 = ((Some \<lparr>WorkspaceId = ''dev''\<rparr>, None), 5)"
      and h5: "CreateDevConnection (scripted None None None (Some \<lparr>WorkspaceId = ''dev''\<rparr>, None) (Inr (''c'', ''s''))) 0 5
                 = (Inr (''c'', ''s''), 6)"
      by (simp_all add: scripted_sel)
    show ?thesis
      using successful_config_invariant [OF h0 h1 h2 h3 h4 h5] by simp
  qed
  show ?thesis using a b by simp
qed

text \<open>
  C3, as the code has it. When \<^verbatim>\<open>CreateDevConnection\<close> fails, the primary session had
  been established with a known workspace and no further call is made on the client
  (nothing is rolled back), but the result is \<^verbatim>\<open>nil\<close> with the error diagnostic
  "Unable to create Looker client": the configuration built for the primary session is
  returned only when \<^verbatim>\<open>CreateDevConnection\<close> succeeds too.
\<close>

theorem dev_connection_failure_discards_config:
  assumes "out = providerConfigure env d p version w0"
  shows
   "(CreateDevConnection_call (Some e) \<in> set (calls out) \<longrightarrow>
       ret out =
         Return (None,
           [\<lparr>Severity = Error,
             Summary = ''Unable to create Looker client'',
             Detail = ''Unable to authenticate user for authenticated Looker client: '' @ e\<rparr>]) \<and>
       last (calls out) = CreateDevConnection_call (Some e) \<and>
       (\<exists>s. SessionsGet_call (Some s) None \<in> set (calls out) \<and>
            (WorkspaceId s = ''production'' \<or> WorkspaceId s = ''dev''))) \<and>
    (ret out = Return (Some cfg, ds) \<longrightarrow> CreateDevConnection_call None \<in> set (calls out))"
  unfolding assms
  by (cases rule: providerConfigure_cases [where env = env and d = d and p = p
        and version = version and ?w0.0 = w0]) auto

theorem dev_connection_failure_discards_config_witness:
  "CreateDevConnection_call (Some ''no dev mode'')
     \<in> set (calls (providerConfigure
         (scripted None None None (Some \<lparr>WorkspaceId = ''dev''\<rparr>, None) (Inl ''no dev mode''))
         sample_data sample_provider ''1.0'' 0)) \<and>
   ret (providerConfigure
         (scripted None None None (Some \<lparr>WorkspaceId = ''dev''\<rparr>, None) (Inl ''no dev mode''))
         sample_data sample_provider ''1.0'' 0) =
     Return (None,
       [\<lparr>Severity = Error,
         Summary = ''Unable to create Looker client'',
         Detail = ''Unable to authenticate user for authenticated Looker client: no dev mode''\<rparr>])"
proof -
  have h: "CreateDevConnection_call (Some ''no dev mode'')
     \<in> set (calls (providerConfigure
         (scripted None None None (Some \<lparr>WorkspaceId = ''dev''\<rparr>, None) (Inl ''no dev mode''))
         sample_data sample_provider ''1.0'' 0))"
    by (simp add: run_sample)
  show ?thesis
    using h dev_connection_failure_discards_config [OF refl,
      where env = "scripted None None None (Some \<lparr>WorkspaceId = ''dev''\<rparr>, None) (Inl ''no dev mode'')"
        and d = sample_data and p = sample_provider and version = "''1.0''" and ?w0.0 = 0
        and e = "''no dev mode''"]
    by simp
qed

text \<open>
  C3, as the claim states it, fails: with the primary session established in
  \<open>production\<close> and a failing \<^verbatim>\<open>CreateDevConnection\<close>, no configuration is returned.
\<close>

theorem dev_connection_failure_counterexample:
  "SessionsGet_call (Some \<lparr>WorkspaceId = ''production''\<rparr>) None
     \<in> set (calls (providerConfigure
         (scripted None None None (Some \<lparr>WorkspaceId = ''production''\<rparr>, None) (Inl ''refused''))
         sample_data sample_provider ''1.0'' 0)) \<and>
   ret (providerConfigure
         (scripted None None None (Some \<lparr>WorkspaceId = ''production''\<rparr>, None) (Inl ''refused''))
         sample_data sample_provider ''1.0'' 0) =
     Return (None,
       [\<lparr>Severity = Error,
         Summary = ''Unable to create Looker client'',
         Detail = ''Unable to authenticate user for authenticated Looker client: refused''\<rparr>])"
  by (simp add: run_sample)

text \<open>
  C4. When a setup step fails (\<^verbatim>\<open>SetBaseURL\<close>, \<^verbatim>\<open>SetOauthCredentials\<close>, \<^verbatim>\<open>SetUserAgent\<close>
  or \<^verbatim>\<open>Sessions.Get\<close> returns an error, or the workspace is not recognised),
  \<^verbatim>\<open>providerConfigure\<close> returns \<^verbatim>\<open>nil\<close> with exactly one diagnostic, of severity
  \<^verbatim>\<open>Error\<close>; the failing step is the last call made, no step before it failed,
  \<^verbatim>\<open>CreateDevConnection\<close> is never called and nothing is printed.
\<close>

theorem setup_failure_is_fatal:
  assumes "out = providerConfigure env d p version w0"
    and "c \<in> set (calls out)"
    and "step_failed c"
  shows
   "(\<exists>dg. ret out = Return (None, [dg]) \<and> Severity dg = Error) \<and>
    last (calls out) = c \<and>
    (\<forall>x \<in> set (butlast (calls out)). \<not> step_failed x) \<and>
    (\<forall>x \<in> set (calls out). \<forall>r. x \<noteq> CreateDevConnection_call r) \<and>
    stdout out = []"
  using assms(2,3) unfolding assms(1)
  by (cases rule: providerConfigure_cases [where env = env and d = d and p = p
        and version = version and ?w0.0 = w0]) auto

theorem setup_failure_is_fatal_witness:
  "SetOauthCredentials_call ''my-client-id'' ''my-client-secret'' (Some ''401'')
     \<in> set (calls (providerConfigure
         (scripted None (Some ''401'') None (Some \<lparr>WorkspaceId = ''dev''\<rparr>, None) (Inr (''c'', ''s'')))
         sample_data sample_provider ''1.0'' 0)) \<and>
   step_failed (SetOauthCredentials_call ''my-client-id'' ''my-client-secret'' (Some ''401'') :: nat call) \<and>
   last (calls (providerConfigure
         (scripted None (Some ''401'') None (Some \<lparr>WorkspaceId = ''dev''\<rparr>, None) (Inr (''c'', ''s'')))
         sample_data sample_provider ''1.0'' 0)) =
     SetOauthCredentials_call ''my-client-id'' ''my-client-secret'' (Some ''401'') \<and>
   world (providerConfigure
         (scripted None (Some ''401'') None (Some \<lparr>WorkspaceId = ''dev''\<rparr>, None) (Inr (''c'', ''s'')))
         sample_data sample_provider ''1.0'' 0) = 3"
proof -
  have h: "SetOauthCredentials_call ''my-client-id'' ''my-client-secret'' (Some ''401'')
     \<in> set (calls (providerConfigure
         (scripted None (Some ''401'') None (Some \<lparr>WorkspaceId = ''dev''\<rparr>, None) (Inr (''c'', ''s'')))
         sample_data sample_provider ''1.0'' 0))"
    by (simp add: run_sample)
  have f: "step_failed (SetOauthCredentials_call ''my-client-id'' ''my-client-secret'' (Some ''401'') :: nat call)"
    by simp
  have w: "world (providerConfigure
         (scripted None (Some ''401'') None (Some \<lparr>WorkspaceId = ''dev''\<rparr>, None) (Inr (''c'', ''s'')))
         sample_data sample_provider ''1.0'' 0) = 3"
    by (simp add: run_sample)
  show ?thesis
    using h f w setup_failure_is_fatal [OF refl h f]
    by simp
qed





text \<open>
  C6. Each of \<open>base_url\<close>, \<open>client_id\<close> and \<open>client_secret\<close> is an optional string
  of the schema whose default is read from its environment variable with \<^verbatim>\<open>nil\<close> as the
  fallback: a configured value wins, otherwise the variable's value when it is not
  empty, otherwise \<^verbatim>\<open>nil\<close>.
\<close>

theorem schema_fields_fall_back_to_environment:
  assumes "(key, var) \<in> {(''base_url'', ''LOOKER_BASE_URL''),
                         (''client_id'', ''LOOKER_API_CLIENT_ID''),
                         (''client_secret'', ''LOOKER_API_CLIENT_SECRET'')}"
  shows
   "(\<exists>s. Schema (New userAgentOf version) key = Some s \<and> Optional s \<and> Type s = TypeString \<and>
         DefaultFunc s = EnvDefaultFunc var None \<and>
         DefaultFunc s getenv = (if getenv var = [] then None else Some (getenv var))) \<and>
    resolve (Schema (New userAgentOf version)) cfg getenv key =
      (case cfg key of
         Some v \<Rightarrow> Some v
       | None \<Rightarrow> (if getenv var = [] then None else Some (getenv var)))"
  using assms
  by (auto simp add: New_def New_Schema_def resolve_def EnvDefaultFunc_def Let_def
      split: option.splits)

theorem schema_fields_fall_back_to_environment_witness:
  "(''client_id'', ''LOOKER_API_CLIENT_ID'') \<in>
      {(''base_url'', ''LOOKER_BASE_URL''),
       (''client_id'', ''LOOKER_API_CLIENT_ID''),
       (''client_secret'', ''LOOKER_API_CLIENT_SECRET'')} \<and>
   resolve (Schema (New sample_user_agent ''1.0'')) Map.empty
     (\<lambda>k. if k = ''LOOKER_API_CLIENT_ID'' then ''id-from-env'' else []) ''client_id''
     = Some ''id-from-env'' \<and>
   resolve (Schema (New sample_user_agent ''1.0'')) Map.empty (\<lambda>k. []) ''client_id'' = None"
proof -
  have h: "(''client_id'', ''LOOKER_API_CLIENT_ID'') \<in>
      {(''base_url'', ''LOOKER_BASE_URL''),
       (''client_id'', ''LOOKER_API_CLIENT_ID''),
       (''client_secret'', ''LOOKER_API_CLIENT_SECRET'')}"
    by simp
  show ?thesis
    using h
      schema_fields_fall_back_to_environment [OF h, where userAgentOf = sample_user_agent
        and version = "''1.0''" and cfg = Map.empty
        and getenv = "\<lambda>k. if k = ''LOOKER_API_CLIENT_ID'' then ''id-from-env'' else []"]
      schema_fields_fall_back_to_environment [OF h, where userAgentOf = sample_user_agent
        and version = "''1.0''" and cfg = Map.empty and getenv = "\<lambda>k. []"]
    by simp
qed

end
